theory Spec2Isabelle
  imports Main "HOL-Library.Sublist"
begin

section \<open>Values handled by \<open>RunScript\<close> (channel/local\_mock.go)\<close>

text \<open>
  A context value is Go's \<open>interface{}\<close>: \<open>ctx.Value(key)\<close> returns \<open>nil\<close> (here
  \<open>None\<close>) when the key is absent, and otherwise a value of some dynamic type. Three
  dynamic types are modelled: string, int and bool.
\<close>

datatype any = AString string | AInt int | ABool bool

text \<open>The four context keys \<open>RunScript\<close> reads (constants of package channel).\<close>

datatype ctxkey = NSTargetFlagName | NSPidFlagName | NSMntFlagName | NSNetFlagName

type_synonym Context = "ctxkey \<Rightarrow> any option"

text \<open>
  A Go \<open>error\<close> value: what \<open>os.IsNotExist(err)\<close> answers for it and its text
  \<open>err.Error()\<close>. The \<open>nil\<close> error is \<open>None\<close> of \<open>error option\<close>.
\<close>

datatype error = Errno (IsNotExist: bool) (Error: string)

text \<open>\<open>os.IsNotExist(err)\<close> on a possibly \<open>nil\<close> error: false for \<open>nil\<close>.\<close>

fun os_IsNotExist :: "error option \<Rightarrow> bool" where
  "os_IsNotExist None = False"
| "os_IsNotExist (Some e) = IsNotExist e"

text \<open>\<open>*exec.Cmd\<close>: the program and its argument vector (\<open>Args\<close> starts with the program).\<close>

record Cmd =
  Path :: string
  Args :: "string list"

text \<open>\<open>exec.CommandContext(ctx, name, arg...)\<close>; the deadline of \<open>ctx\<close> is not modelled.\<close>

definition CommandContext :: "string \<Rightarrow> string list \<Rightarrow> Cmd" where
  "CommandContext name arg = \<lparr>Path = name, Args = name # arg\<rparr>"

text \<open>
  The variadic \<open>flags ...interface{}\<close> of \<open>spec.ResponseFailWithFlags\<close>: \<open>RunScript\<close>
  passes strings and \<open>*exec.Cmd\<close> values.
\<close>

datatype flag = FString string | FCmd Cmd

text \<open>
  A \<open>spec.CodeType\<close>: the source reads its field \<open>Code\<close>
  (\<open>spec.ResultUnmarshalFailed.Code\<close>); it is named \<open>TypeCode\<close> here, since a
  \<open>Response\<close> has a field \<open>Code\<close> too.
\<close>

record CodeType =
  TypeCode :: int

text \<open>
  Modelled from the spec: the type \<open>spec.Response\<close> is declared in package spec, which
  is not among the sources. The spec gives its wire shape as
  \<open>{code: int, success: bool, result: string|null, err: string|null}\<close>.
\<close>

record Response =
  Code :: int
  Success :: bool
  Result :: "string option"
  Err :: "string option"

text \<open>
  The side effects \<open>RunScript\<close> can have on the host: extracting the archive into the
  staging directory (\<open>UnTar\<close> with its two arguments), and running a subprocess to its
  end (\<open>CombinedOutput\<close>), recorded with the combined output and the error it gave.
\<close>

datatype effect = Extract string string | Exec Cmd string "error option"

section \<open>The environment of \<open>RunScript\<close>\<close>

text \<open>
  Everything \<open>RunScript\<close> uses that is declared outside channel/local\_mock.go is a
  field of the environment: the constants and functions of packages spec and util, the
  unexported helpers \<open>isBladeCommand\<close> and \<open>UnTar\<close> of package channel, the functions of
  Go's standard library whose results depend on the host, and the host itself. The host
  is a state of type \<open>'w\<close>: \<open>UnTar\<close> and \<open>CombinedOutput\<close> change it, \<open>IsExist\<close>,
  \<open>Stat\<close> and \<open>UnixNano\<close> read it.
\<close>

record 'w Env =
  spec_True :: any
  BinPath :: string
  NSExecBin :: string
  OK :: CodeType
  CommandIllegal :: CodeType
  ChaosbladeFileNotFound :: CodeType
  FileNotExist :: CodeType
  OsCmdExecFailed :: CodeType
  ResultUnmarshalFailed :: CodeType
  ErrMessage :: "CodeType \<Rightarrow> flag list \<Rightarrow> string"
  Decode :: "string \<Rightarrow> Response"
  isBladeCommand :: "string \<Rightarrow> bool"
  IsExist :: "'w \<Rightarrow> string \<Rightarrow> bool"
  GetProgramPath :: string
  UnTar :: "string \<Rightarrow> string \<Rightarrow> 'w \<Rightarrow> error option \<times> 'w"
  filepath_Dir :: "string \<Rightarrow> string"
  path_Base :: "string \<Rightarrow> string"
  path_Join :: "string \<Rightarrow> string \<Rightarrow> string"
  TrimSpace :: "string \<Rightarrow> string"
  GOOS :: string
  UnixNano :: "'w \<Rightarrow> int"
  Stat :: "'w \<Rightarrow> string \<Rightarrow> error option"
  CombinedOutput :: "Cmd \<Rightarrow> 'w \<Rightarrow> (string \<times> error option) \<times> 'w"

text \<open>
  Modelled from the spec: \<open>spec.ReturnSuccess\<close> and \<open>spec.ResponseFailWithFlags\<close> are
  functions of package spec, which is not among the sources. The spec describes the first
  as a success Response carrying its argument as result payload, and the second as a
  Response with \<open>success=false\<close>, the stable code of the code type and a human-readable
  message; the message is the environment's rendering \<open>ErrMessage\<close> of the code type and
  the flags.
\<close>

definition ReturnSuccess :: "'w Env \<Rightarrow> string \<Rightarrow> Response" where
  "ReturnSuccess env result =
     \<lparr>Code = TypeCode (OK env), Success = True, Result = Some result, Err = None\<rparr>"

definition ResponseFailWithFlags :: "'w Env \<Rightarrow> CodeType \<Rightarrow> flag list \<Rightarrow> Response" where
  "ResponseFailWithFlags env codeType flags =
     \<lparr>Code = TypeCode codeType, Success = False, Result = None,
      Err = Some (ErrMessage env codeType flags)\<rparr>"

section \<open>Formatting and splitting\<close>

text \<open>\<open>fmt.Sprintf("%d", n)\<close>: the decimal digits of an integer, with a sign when negative.\<close>

fun digits :: "nat \<Rightarrow> string" where
  "digits n = (if n < 10 then [''0123456789'' ! n]
               else digits (n div 10) @ [''0123456789'' ! (n mod 10)])"

declare digits.simps [simp del]

definition Sprintf_d :: "int \<Rightarrow> string" where
  "Sprintf_d n = (if n < 0 then CHR ''-'' # digits (nat (- n)) else digits (nat n))"

text \<open>
  The verb \<open>%s\<close> of \<open>fmt.Sprintf\<close> applied to a context value: a string is printed as
  it is; for a value of another type Go prints \<open>%!s(type=value)\<close>.
\<close>

fun Sprintf_s :: "any \<Rightarrow> string" where
  "Sprintf_s (AString s) = s"
| "Sprintf_s (AInt n) = ''%!s(int='' @ Sprintf_d n @ '')''"
| "Sprintf_s (ABool b) = ''%!s(bool='' @ (if b then ''true'' else ''false'') @ '')''"

text \<open>
  \<open>strings.Split(s, sep)\<close> for a separator of one character (\<open>RunScript\<close> splits at
  \<open>" "\<close>): every occurrence of the separator ends a field, so two separators in a row
  give an empty field, and a string without separator is the only field.
\<close>

fun Split :: "string \<Rightarrow> char \<Rightarrow> string list" where
  "Split [] sep = [[]]"
| "Split (c # s) sep =
     (if c = sep then [] # Split s sep
      else (case Split s sep of [] \<Rightarrow> [[c]] | f # fs \<Rightarrow> (c # f) # fs))"

section \<open>\<open>RunScript\<close>\<close>

text \<open>
  Lines 122--134: the namespace flags. \<open>ctx.Value(k) == spec.True\<close> compares two
  interface values, and is false for an absent key.
\<close>

definition ns_script :: "'w Env \<Rightarrow> Context \<Rightarrow> any \<Rightarrow> string" where
  "ns_script env ctx pid =
     (let ns = ''-t '' @ Sprintf_s pid;
          ns = (if ctx NSPidFlagName = Some (spec_True env) then ns @ '' -p'' else ns);
          ns = (if ctx NSMntFlagName = Some (spec_True env) then ns @ '' -m'' else ns);
          ns = (if ctx NSNetFlagName = Some (spec_True env) then ns @ '' -n'' else ns)
      in ns)"

text \<open>Line 145: the staging directory, beside the package, named by the clock.\<close>

definition tarDistDir :: "'w Env \<Rightarrow> string \<Rightarrow> 'w \<Rightarrow> string" where
  "tarDistDir env script w = filepath_Dir env script @ ''/'' @ Sprintf_d (UnixNano env w)"

text \<open>Lines 156--160: the path of the namespace-entry helper binary.\<close>

definition bin :: "'w Env \<Rightarrow> string" where
  "bin env =
     (let programPath = GetProgramPath env;
          programPath = (if path_Base env programPath \<noteq> BinPath env
                         then path_Join env programPath (BinPath env) else programPath)
      in path_Join env programPath (NSExecBin env))"

text \<open>Line 164: the subprocess that makes the entry point executable.\<close>

definition cmdChmod :: "'w Env \<Rightarrow> string \<Rightarrow> Cmd" where
  "cmdChmod env scriptMain = CommandContext (bin env) [''chmod 777 '' @ scriptMain]"

text \<open>
  Lines 173--191: the entry point wrapped in the terminal recorder; the result is the
  last argument of the main subprocess. \<open>[CHR 0x22]\<close> is the double quote.
\<close>

definition record_args :: "string \<Rightarrow> string \<Rightarrow> string \<Rightarrow> string \<Rightarrow> string" where
  "record_args goos uid scriptMain args =
     (let time = ''/tmp/'' @ uid @ ''.time'';
          out = ''/tmp/'' @ uid @ ''.out''
      in if goos = ''darwin''
         then (let scriptMain = ''script  -t 2>'' @ time @ '' -a '' @ out @ '' '' @ scriptMain
               in if args \<noteq> '''' then scriptMain @ '' '' @ args else scriptMain)
         else (let scriptMain = ''script  -t 2>'' @ time @ '' -a '' @ out @ ''  -c  ''
                                 @ [CHR 0x22] @ scriptMain;
                   args = (if args \<noteq> '''' then scriptMain @ '' '' @ args else scriptMain)
               in args @ [CHR 0x22]))"

text \<open>Lines 193--195: the main subprocess.\<close>

definition cmd :: "'w Env \<Rightarrow> string \<Rightarrow> string \<Rightarrow> Cmd" where
  "cmd env ns args = CommandContext (bin env) (Split ns CHR '' '' @ [args])"

text \<open>Lines 200--210: the Response made of the output and error of the main subprocess.\<close>

definition decode_output :: "'w Env \<Rightarrow> Cmd \<Rightarrow> string \<Rightarrow> error option \<Rightarrow> Response" where
  "decode_output env c outMsg err =
     (let fallback =
            (case err of
               None \<Rightarrow> ReturnSuccess env outMsg
             | Some e \<Rightarrow>
                 ResponseFailWithFlags env (OsCmdExecFailed env)
                   [FCmd c, FString (outMsg @ '' '' @ Error e)])
      in if TrimSpace env outMsg \<noteq> ''''
         then (let resp = Decode env outMsg
               in if Code resp \<noteq> TypeCode (ResultUnmarshalFailed env) then resp else fallback)
         else fallback)"

text \<open>
  Lines 154--210: what \<open>RunScript\<close> does once the entry point is staged. The result is
  the Response, the host afterwards, and the subprocesses run, in order.
\<close>

definition run_staged ::
  "'w Env \<Rightarrow> string \<Rightarrow> string \<Rightarrow> string \<Rightarrow> string \<Rightarrow> 'w \<Rightarrow> Response \<times> 'w \<times> effect list" where
  "run_staged env ns args uid scriptMain w =
     (let ns = ns @ '' -- /bin/sh -c'';
          chmod = cmdChmod env scriptMain;
          ((outMsgChmod, err), w) = CombinedOutput env chmod w
      in case err of
           Some e \<Rightarrow>
             (ResponseFailWithFlags env (OsCmdExecFailed env)
                [FCmd chmod, FString (outMsgChmod @ '' '' @ Error e)],
              w, [Exec chmod outMsgChmod err])
         | None \<Rightarrow>
             (let args = record_args (GOOS env) uid scriptMain args;
                  c = cmd env ns args;
                  ((outMsg, err), w) = CombinedOutput env c w
              in (decode_output env c outMsg err, w,
                  [Exec chmod outMsgChmod None, Exec c outMsg err])))"

text \<open>
  \<open>RunScript\<close>, lines 116--152 and then \<open>run_staged\<close>. The result is the Response, the
  host afterwards, and the side effects on the host, in order. \<open>os.IsNotExist(err)\<close> is
  false for the \<open>nil\<close> error. The calls of \<open>log.Debugf\<close> are left out.
\<close>

definition RunScript ::
  "'w Env \<Rightarrow> Context \<Rightarrow> string \<Rightarrow> string \<Rightarrow> string \<Rightarrow> 'w \<Rightarrow> Response \<times> 'w \<times> effect list" where
  "RunScript env ctx script args uid w =
     (case ctx NSTargetFlagName of
        None \<Rightarrow> (ResponseFailWithFlags env (CommandIllegal env) [FString script], w, [])
      | Some pid \<Rightarrow>
          (let ns = ns_script env ctx pid
           in if isBladeCommand env script \<and> \<not> IsExist env w script
              then (ResponseFailWithFlags env (ChaosbladeFileNotFound env) [FString script],
                    w, [])
              else
                (let dir = tarDistDir env script w;
                     (_, w) = UnTar env script dir w;
                     scriptMain = dir @ ''/main'';
                     staged =
                       (let (resp, w, effects) = run_staged env ns args uid scriptMain w
                        in (resp, w, Extract script dir # effects))
                 in case Stat env w scriptMain of
                      None \<Rightarrow> staged
                    | Some err \<Rightarrow>
                        if IsNotExist err
                        then (ResponseFailWithFlags env (FileNotExist env)
                                [FString ('' script files must contain main file '' @ Error err)],
                              w, [Extract script dir])
                        else staged)))"

section \<open>A concrete host\<close>

text \<open>
  An environment on which \<open>RunScript\<close> can be run: the host is the list of the files
  that exist; an archive unpacks into the staging directory when it exists; the two
  subprocesses give the results passed as parameters (first that of \<open>chmod\<close>, then that
  of the main subprocess); the decoder accepts one payload,
  \<open>{"code":200,"success":true,"result":"done"}\<close>; \<open>blade\<close> is the blade command. The
  helper binary is \<open>/opt/chaosblade/bin/nsexec\<close>, the clock reads
  \<open>1700000000000000000\<close>, and the host family is \<open>linux\<close>.
\<close>

definition example_Dir :: "string \<Rightarrow> string" where
  "example_Dir p = rev (tl (dropWhile (\<lambda>c. c \<noteq> CHR ''/'') (rev p)))"

definition example_Base :: "string \<Rightarrow> string" where
  "example_Base p = rev (takeWhile (\<lambda>c. c \<noteq> CHR ''/'') (rev p))"

definition example_space :: "char \<Rightarrow> bool" where
  "example_space c = (c = CHR '' '' \<or> c = CHR 0x09 \<or> c = CHR 0x0A \<or> c = CHR 0x0D)"

definition example_TrimSpace :: "string \<Rightarrow> string" where
  "example_TrimSpace s = rev (dropWhile example_space (rev (dropWhile example_space s)))"

fun example_flag_text :: "flag \<Rightarrow> string" where
  "example_flag_text (FString s) = s"
| "example_flag_text (FCmd c) = Path c @ concat (map (\<lambda>a. CHR '' '' # a) (tl (Args c)))"

definition example_ErrMessage :: "CodeType \<Rightarrow> flag list \<Rightarrow> string" where
  "example_ErrMessage codeType flags =
     ''code '' @ Sprintf_d (TypeCode codeType)
       @ concat (map (\<lambda>f. '': '' @ example_flag_text f) flags)"

definition example_payload :: string where
  "example_payload = ''{'' @ [CHR 0x22] @ ''code'' @ [CHR 0x22] @ '':200,''
                       @ [CHR 0x22] @ ''success'' @ [CHR 0x22] @ '':true,''
                       @ [CHR 0x22] @ ''result'' @ [CHR 0x22] @ '':''
                       @ [CHR 0x22] @ ''done'' @ [CHR 0x22] @ ''}''"

definition example_Decode :: "string \<Rightarrow> Response" where
  "example_Decode content =
     (if example_TrimSpace content = example_payload
      then \<lparr>Code = 200, Success = True, Result = Some ''done'', Err = None\<rparr>
      else \<lparr>Code = 63063, Success = False, Result = None,
            Err = Some (example_ErrMessage \<lparr>TypeCode = 63063\<rparr> [FString content])\<rparr>)"

definition example_members :: "string \<Rightarrow> string list" where
  "example_members script = (if script = ''/tmp/pkg.tar'' then [''main''] else [''run.sh''])"

definition example_UnTar :: "string \<Rightarrow> string \<Rightarrow> string list \<Rightarrow> error option \<times> string list" where
  "example_UnTar script dir files =
     (if script \<in> set files
      then (None, map (\<lambda>m. dir @ ''/'' @ m) (example_members script) @ files)
      else (Some (Errno True (''open '' @ script @ '': no such file or directory'')), files))"

definition example_Stat :: "string list \<Rightarrow> string \<Rightarrow> error option" where
  "example_Stat files p =
     (if p \<in> set files then None
      else Some (Errno True (''stat '' @ p @ '': no such file or directory'')))"

definition example_env ::
  "string \<times> error option \<Rightarrow> string \<times> error option \<Rightarrow> string list Env" where
  "example_env chmod_result main_result =
     \<lparr>spec_True = AString ''true'',
      BinPath = ''bin'',
      NSExecBin = ''nsexec'',
      OK = \<lparr>TypeCode = 200\<rparr>,
      CommandIllegal = \<lparr>TypeCode = 46000\<rparr>,
      ChaosbladeFileNotFound = \<lparr>TypeCode = 44001\<rparr>,
      FileNotExist = \<lparr>TypeCode = 44002\<rparr>,
      OsCmdExecFailed = \<lparr>TypeCode = 52000\<rparr>,
      ResultUnmarshalFailed = \<lparr>TypeCode = 63063\<rparr>,
      ErrMessage = example_ErrMessage,
      Decode = example_Decode,
      isBladeCommand = (\<lambda>script. example_Base script = ''blade''),
      IsExist = (\<lambda>files p. p \<in> set files),
      GetProgramPath = ''/opt/chaosblade'',
      UnTar = example_UnTar,
      filepath_Dir = example_Dir,
      path_Base = example_Base,
      path_Join = (\<lambda>a b. a @ ''/'' @ b),
      TrimSpace = example_TrimSpace,
      GOOS = ''linux'',
      UnixNano = (\<lambda>files. 1700000000000000000),
      Stat = example_Stat,
      CombinedOutput =
        (\<lambda>c files. (if take 5 (last (Args c)) = ''chmod'' then chmod_result else main_result,
                     files))\<rparr>"

text \<open>A request for the mount and network namespaces of the target \<open>pid\<close>.\<close>

definition example_ctx :: "string \<Rightarrow> Context" where
  "example_ctx pid =
     (\<lambda>k. None)(NSTargetFlagName \<mapsto> AString pid, NSMntFlagName \<mapsto> AString ''true'',
               NSNetFlagName \<mapsto> AString ''true'')"

text \<open>
  Two packages exist: \<open>/tmp/pkg.tar\<close> holds \<open>main\<close>, \<open>/tmp/nomain.tar\<close> holds
  \<open>run.sh\<close> only.
\<close>

definition example_files :: "string list" where
  "example_files = [''/tmp/pkg.tar'', ''/tmp/nomain.tar'']"

text \<open>The two subprocesses of a run on \<open>/tmp/pkg.tar\<close> with invocation id \<open>id1\<close>.\<close>

definition example_chmod :: Cmd where
  "example_chmod =
     \<lparr>Path = ''/opt/chaosblade/bin/nsexec'',
      Args = [''/opt/chaosblade/bin/nsexec'', ''chmod 777 /tmp/1700000000000000000/main'']\<rparr>"

definition example_cmd :: "string \<Rightarrow> Cmd" where
  "example_cmd pid =
     \<lparr>Path = ''/opt/chaosblade/bin/nsexec'',
      Args = [''/opt/chaosblade/bin/nsexec'', ''-t'', pid, ''-m'', ''-n'', ''--'', ''/bin/sh'', ''-c'',
              ''script  -t 2>/tmp/id1.time -a /tmp/id1.out  -c  '' @ [CHR 0x22]
                @ ''/tmp/1700000000000000000/main'' @ [CHR 0x22]]\<rparr>"

section \<open>Facts about the model\<close>

lemmas example_defs =
  example_env_def example_ctx_def example_files_def example_chmod_def example_cmd_def
  example_Dir_def example_Base_def example_UnTar_def example_Stat_def example_members_def
  tarDistDir_def Sprintf_d_def digits.simps bin_def cmdChmod_def cmd_def CommandContext_def
  record_args_def ns_script_def

text \<open>
  A run whose side effects are an extraction and two subprocesses is a run that reached
  the main subprocess: the third effect is that subprocess, and the Response is made of
  its output and error.
\<close>

lemma RunScript_main_trace:
  assumes "RunScript env ctx script args uid w =
             (resp, w', [Extract s dir, ch, Exec c outMsg err])"
  shows "\<exists>pid. ctx NSTargetFlagName = Some pid
           \<and> s = script \<and> dir = tarDistDir env script w
           \<and> c = cmd env (ns_script env ctx pid @ '' -- /bin/sh -c'')
                   (record_args (GOOS env) uid (dir @ ''/main'') args)
           \<and> resp = decode_output env c outMsg err"
  using assms
  by (auto simp: RunScript_def run_staged_def Let_def split: option.splits if_splits prod.splits)

text \<open>Conversely, a request that passes the checks of lines 117--152 goes on to line 154.\<close>

lemma RunScript_staged:
  assumes "ctx NSTargetFlagName = Some pid"
      and "\<not> (isBladeCommand env script \<and> \<not> IsExist env w script)"
      and "UnTar env script (tarDistDir env script w) w = (r, w1)"
      and "\<not> os_IsNotExist (Stat env w1 (tarDistDir env script w @ ''/main''))"
  shows "RunScript env ctx script args uid w =
          (let (resp, w', effects) =
                 run_staged env (ns_script env ctx pid) args uid
                   (tarDistDir env script w @ ''/main'') w1
           in (resp, w', Extract script (tarDistDir env script w) # effects))"
  using assms
  by (cases "Stat env w1 (tarDistDir env script w @ ''/main'')")
     (auto simp: RunScript_def Let_def split: option.splits prod.splits)

lemma RunScript_main_missing:
  assumes "ctx NSTargetFlagName = Some pid"
      and "\<not> (isBladeCommand env script \<and> \<not> IsExist env w script)"
      and "UnTar env script (tarDistDir env script w) w = (r, w1)"
      and "Stat env w1 (tarDistDir env script w @ ''/main'') = Some e"
      and "IsNotExist e"
  shows "RunScript env ctx script args uid w =
           (ResponseFailWithFlags env (FileNotExist env)
              [FString ('' script files must contain main file '' @ Error e)],
            w1, [Extract script (tarDistDir env script w)])"
  using assms by (auto simp: RunScript_def Let_def)

lemma ns_script_closed:
  "ns_script env ctx pid =
     ''-t '' @ Sprintf_s pid
       @ (if ctx NSPidFlagName = Some (spec_True env) then '' -p'' else '''')
       @ (if ctx NSMntFlagName = Some (spec_True env) then '' -m'' else '''')
       @ (if ctx NSNetFlagName = Some (spec_True env) then '' -n'' else '''')"
  by (simp add: ns_script_def Let_def)

lemma example_ErrMessage_embeds: "sublist m (example_ErrMessage codeType [FString m])"
  unfolding example_ErrMessage_def
  using sublist_appendI [of m "''code '' @ Sprintf_d (TypeCode codeType) @ '': ''" "[]"]
  by simp

text \<open>
  The run of the concrete host on \<open>/tmp/pkg.tar\<close> for target pid \<open>1234\<close>, when
  \<open>chmod\<close> succeeds and the main subprocess gives \<open>out\<close> and \<open>err\<close>.
\<close>

lemma example_run:
  "RunScript (example_env ('''', None) (out, err)) (example_ctx ''1234'') ''/tmp/pkg.tar'' ''''
     ''id1'' example_files =
   (decode_output (example_env ('''', None) (out, err)) (example_cmd ''1234'') out err,
    ''/tmp/1700000000000000000/main'' # example_files,
    [Extract ''/tmp/pkg.tar'' ''/tmp/1700000000000000000'', Exec example_chmod '''' None,
     Exec (example_cmd ''1234'') out err])"
  by (simp add: RunScript_def run_staged_def Let_def example_defs)

text \<open>The same on a host of the Darwin family, with arguments for the script.\<close>

lemma example_run_darwin:
  "RunScript ((example_env ('''', None) (out, err))\<lparr>GOOS := ''darwin''\<rparr>) (example_ctx ''1234'')
     ''/tmp/pkg.tar'' ''--level 3'' ''id1'' example_files =
   (decode_output ((example_env ('''', None) (out, err))\<lparr>GOOS := ''darwin''\<rparr>)
      \<lparr>Path = ''/opt/chaosblade/bin/nsexec'',
       Args = [''/opt/chaosblade/bin/nsexec'', ''-t'', ''1234'', ''-m'', ''-n'', ''--'',
               ''/bin/sh'', ''-c'',
               ''script  -t 2>/tmp/id1.time -a /tmp/id1.out /tmp/1700000000000000000/main --level 3'']\<rparr>
      out err,
    ''/tmp/1700000000000000000/main'' # example_files,
    [Extract ''/tmp/pkg.tar'' ''/tmp/1700000000000000000'', Exec example_chmod '''' None,
     Exec \<lparr>Path = ''/opt/chaosblade/bin/nsexec'',
           Args = [''/opt/chaosblade/bin/nsexec'', ''-t'', ''1234'', ''-m'', ''-n'', ''--'',
                   ''/bin/sh'', ''-c'',
                   ''script  -t 2>/tmp/id1.time -a /tmp/id1.out /tmp/1700000000000000000/main --level 3'']\<rparr>
       out err])"
  by (simp add: RunScript_def run_staged_def Let_def example_defs)

section \<open>The Response decoder\<close>

text \<open>
  C1. When the main subprocess of \<open>RunScript\<close> has produced an output that is not empty
  after trimming, and the Response decoded from it has a code other than that of
  \<open>ResultUnmarshalFailed\<close>, the decoded Response is the result of \<open>RunScript\<close> as it
  is, whatever error \<open>err\<close> the subprocess reported.
\<close>

theorem RunScript_returns_decoded:
  assumes "RunScript env ctx script args uid w =
             (resp, w', [Extract s dir, ch, Exec c outMsg err])"
      and "TrimSpace env outMsg \<noteq> ''''"
      and "Code (Decode env outMsg) \<noteq> TypeCode (ResultUnmarshalFailed env)"
  shows "resp = Decode env outMsg"
  using RunScript_main_trace [OF assms(1)] assms(2,3)
  by (auto simp: decode_output_def Let_def)

theorem RunScript_returns_decoded_witness:
  "fst (RunScript
          (example_env ('''', None) (example_payload, Some (Errno False ''exit status 1'')))
          (example_ctx ''1234'') ''/tmp/pkg.tar'' '''' ''id1'' example_files)
   = \<lparr>Code = 200, Success = True, Result = Some ''done'', Err = None\<rparr>"
proof -
  let ?err = "Some (Errno False ''exit status 1'')"
  let ?E = "example_env ('''', None) (example_payload, ?err)"
  have trim: "TrimSpace ?E example_payload \<noteq> ''''"
    by (simp add: example_env_def example_TrimSpace_def example_payload_def example_space_def)
  have code: "Code (Decode ?E example_payload) \<noteq> TypeCode (ResultUnmarshalFailed ?E)"
    by (simp add: example_env_def example_Decode_def example_TrimSpace_def example_payload_def
        example_space_def)
  have "decode_output ?E (example_cmd ''1234'') example_payload ?err = Decode ?E example_payload"
    using RunScript_returns_decoded [OF example_run trim code] .
  then have "fst (RunScript ?E (example_ctx ''1234'') ''/tmp/pkg.tar'' '''' ''id1'' example_files)
               = Decode ?E example_payload"
    by (simp add: example_run)
  also have "Decode ?E example_payload
               = \<lparr>Code = 200, Success = True, Result = Some ''done'', Err = None\<rparr>"
    by (simp add: example_env_def example_Decode_def example_TrimSpace_def example_payload_def
        example_space_def)
  finally show ?thesis .
qed

text \<open>
  C2. When the output of the main subprocess is empty after trimming, or the Response
  decoded from it has the code of \<open>ResultUnmarshalFailed\<close>: without error of the
  subprocess the result is the success Response whose result payload is the raw output;
  with an error it is the failure Response of code \<open>OsCmdExecFailed\<close> whose flags are the
  command that was run and the raw output, a space and the error text.
\<close>

theorem RunScript_fallback:
  assumes "RunScript env ctx script args uid w =
             (resp, w', [Extract s dir, ch, Exec c outMsg err])"
      and "TrimSpace env outMsg = ''''
           \<or> Code (Decode env outMsg) = TypeCode (ResultUnmarshalFailed env)"
  shows "resp = (case err of
                   None \<Rightarrow> ReturnSuccess env outMsg
                 | Some e \<Rightarrow> ResponseFailWithFlags env (OsCmdExecFailed env)
                               [FCmd c, FString (outMsg @ '' '' @ Error e)])
         \<and> Success resp = (err = None)
         \<and> (case err of None \<Rightarrow> Result resp = Some outMsg
                        | Some e \<Rightarrow> Code resp = TypeCode (OsCmdExecFailed env))"
proof -
  have "resp = decode_output env c outMsg err"
    using RunScript_main_trace [OF assms(1)] by blast
  then have "resp = (case err of
                   None \<Rightarrow> ReturnSuccess env outMsg
                 | Some e \<Rightarrow> ResponseFailWithFlags env (OsCmdExecFailed env)
                               [FCmd c, FString (outMsg @ '' '' @ Error e)])"
    using assms(2) by (auto simp: decode_output_def Let_def)
  then show ?thesis
    by (cases err) (simp_all add: ReturnSuccess_def ResponseFailWithFlags_def)
qed

theorem RunScript_fallback_witness:
  "fst (RunScript (example_env ('''', None) ('''', None))
          (example_ctx ''1234'') ''/tmp/pkg.tar'' '''' ''id1'' example_files)
     = \<lparr>Code = 200, Success = True, Result = Some '''', Err = None\<rparr>
   \<and> fst (RunScript (example_env ('''', None) (''boom'', Some (Errno False ''exit status 1'')))
          (example_ctx ''1234'') ''/tmp/pkg.tar'' '''' ''id1'' example_files)
     = \<lparr>Code = 52000, Success = False, Result = None,
        Err = Some (example_ErrMessage \<lparr>TypeCode = 52000\<rparr>
                      [FCmd (example_cmd ''1234''), FString ''boom exit status 1''])\<rparr>"
proof -
  let ?err = "Some (Errno False ''exit status 1'')"
  let ?E1 = "example_env ('''', None) ('''', None)"
  let ?E2 = "example_env ('''', None) (''boom'', ?err)"
  have empty: "TrimSpace ?E1 '''' = ''''
               \<or> Code (Decode ?E1 '''') = TypeCode (ResultUnmarshalFailed ?E1)"
    by (simp add: example_env_def example_TrimSpace_def)
  have undecodable: "TrimSpace ?E2 ''boom'' = ''''
               \<or> Code (Decode ?E2 ''boom'') = TypeCode (ResultUnmarshalFailed ?E2)"
    by (simp add: example_env_def example_Decode_def example_TrimSpace_def
        example_payload_def example_space_def)
  have "decode_output ?E1 (example_cmd ''1234'') '''' None = ReturnSuccess ?E1 ''''"
    using RunScript_fallback [OF example_run empty] by simp
  then have "fst (RunScript ?E1 (example_ctx ''1234'') ''/tmp/pkg.tar'' '''' ''id1'' example_files)
               = ReturnSuccess ?E1 ''''"
    by (simp add: example_run)
  then have success:
    "fst (RunScript ?E1 (example_ctx ''1234'') ''/tmp/pkg.tar'' '''' ''id1'' example_files)
       = \<lparr>Code = 200, Success = True, Result = Some '''', Err = None\<rparr>"
    by (simp add: ReturnSuccess_def example_env_def)
  have "decode_output ?E2 (example_cmd ''1234'') ''boom'' ?err =
      ResponseFailWithFlags ?E2 (OsCmdExecFailed ?E2)
        [FCmd (example_cmd ''1234''), FString (''boom'' @ '' '' @ ''exit status 1'')]"
    using RunScript_fallback [OF example_run undecodable] by simp
  then have "fst (RunScript ?E2 (example_ctx ''1234'') ''/tmp/pkg.tar'' '''' ''id1'' example_files)
               = ResponseFailWithFlags ?E2 (OsCmdExecFailed ?E2)
                   [FCmd (example_cmd ''1234''), FString (''boom'' @ '' '' @ ''exit status 1'')]"
    by (simp add: example_run)
  then have failure:
    "fst (RunScript ?E2 (example_ctx ''1234'') ''/tmp/pkg.tar'' '''' ''id1'' example_files)
       = \<lparr>Code = 52000, Success = False, Result = None,
          Err = Some (example_ErrMessage \<lparr>TypeCode = 52000\<rparr>
                        [FCmd (example_cmd ''1234''), FString ''boom exit status 1''])\<rparr>"
    by (simp add: ResponseFailWithFlags_def example_env_def)
  show ?thesis using success failure by (rule conjI)
qed

section \<open>Rejection of a request without target pid\<close>

text \<open>
  C3. When the execution context carries no value under the target-pid key, the result
  of \<open>RunScript\<close> is the failure Response of code \<open>CommandIllegal\<close>, the host is as it
  was, and no side effect (no extraction, no subprocess) has occurred.
\<close>

theorem RunScript_no_pid:
  assumes "ctx NSTargetFlagName = None"
  shows "RunScript env ctx script args uid w =
           (ResponseFailWithFlags env (CommandIllegal env) [FString script], w, [])
         \<and> Code (fst (RunScript env ctx script args uid w)) = TypeCode (CommandIllegal env)
         \<and> \<not> Success (fst (RunScript env ctx script args uid w))"
  using assms by (simp add: RunScript_def ResponseFailWithFlags_def)

theorem RunScript_no_pid_witness:
  "RunScript (example_env ('''', None) ('''', None)) (\<lambda>k. None) ''/tmp/pkg.tar'' '''' ''id1''
     example_files =
   (\<lparr>Code = 46000, Success = False, Result = None, Err = Some ''code 46000: /tmp/pkg.tar''\<rparr>,
    example_files, [])"
  using RunScript_no_pid [where ctx = "\<lambda>k. None" and env = "example_env ('''', None) ('''', None)"
      and script = "''/tmp/pkg.tar''" and args = "''''" and uid = "''id1''" and w = example_files]
  by (simp add: ResponseFailWithFlags_def example_env_def example_ErrMessage_def
      Sprintf_d_def digits.simps)

section \<open>The namespace flags\<close>

text \<open>
  C4. The namespace flags are \<open>-t\<close> and the pid, followed by \<open>-p\<close>, \<open>-m\<close> and \<open>-n\<close> in
  this order, each present exactly when the context value of its key equals
  \<open>spec.True\<close>; the main subprocess gets them, split at the spaces and followed by
  \<open>-- /bin/sh -c\<close> and the wrapped command. A request for the network and mount namespaces
  gives \<open>-t <pid> -m -n\<close>.
\<close>

theorem ns_flags_fixed_order:
  assumes "RunScript env ctx script args uid w =
             (resp, w', [Extract s dir, ch, Exec c outMsg err])"
      and "ctx NSTargetFlagName = Some pid"
  shows "ns_script env ctx pid =
           ''-t '' @ Sprintf_s pid
             @ (if ctx NSPidFlagName = Some (spec_True env) then '' -p'' else '''')
             @ (if ctx NSMntFlagName = Some (spec_True env) then '' -m'' else '''')
             @ (if ctx NSNetFlagName = Some (spec_True env) then '' -n'' else '''')
         \<and> Args c = bin env # Split (ns_script env ctx pid @ '' -- /bin/sh -c'') CHR '' ''
                        @ [record_args (GOOS env) uid (dir @ ''/main'') args]"
  using RunScript_main_trace [OF assms(1)] assms(2)
  by (auto simp: ns_script_closed cmd_def CommandContext_def)

theorem ns_flags_fixed_order_witness:
  "ns_script (example_env ('''', None) ('''', None)) (example_ctx ''1234'') (AString ''1234'')
     = ''-t 1234 -m -n''
   \<and> ns_script (example_env ('''', None) ('''', None)) (example_ctx ''1234'') (AString ''1234'')
     \<noteq> ''-t 1234 -n -m''
   \<and> Split (ns_script (example_env ('''', None) ('''', None)) (example_ctx ''1234'')
              (AString ''1234'') @ '' -- /bin/sh -c'') CHR '' ''
     = [''-t'', ''1234'', ''-m'', ''-n'', ''--'', ''/bin/sh'', ''-c'']"
proof -
  let ?E = "example_env ('''', None) ('''', None)"
  have pid: "example_ctx ''1234'' NSTargetFlagName = Some (AString ''1234'')"
    by (simp add: example_ctx_def)
  have "ns_script ?E (example_ctx ''1234'') (AString ''1234'') =
           ''-t '' @ Sprintf_s (AString ''1234'')
             @ (if example_ctx ''1234'' NSPidFlagName = Some (spec_True ?E) then '' -p'' else '''')
             @ (if example_ctx ''1234'' NSMntFlagName = Some (spec_True ?E) then '' -m'' else '''')
             @ (if example_ctx ''1234'' NSNetFlagName = Some (spec_True ?E) then '' -n'' else '''')"
    using ns_flags_fixed_order [OF example_run pid] by blast
  then have "ns_script ?E (example_ctx ''1234'') (AString ''1234'') = ''-t 1234 -m -n''"
    by (simp add: example_ctx_def example_env_def)
  then show ?thesis by simp
qed

text \<open>
  C10. The value under the target-pid key is used as it is: for any value \<open>pid\<close>, a
  request whose package passes the checks and whose \<open>chmod\<close> succeeds runs the main
  subprocess, with \<open>-t\<close> as first argument and the flags, which begin with the text of
  \<open>pid\<close>, after it. No hypothesis restricts \<open>pid\<close>.
\<close>

theorem pid_checked_for_presence_only:
  assumes "ctx NSTargetFlagName = Some pid"
      and "\<not> (isBladeCommand env script \<and> \<not> IsExist env w script)"
      and "UnTar env script (tarDistDir env script w) w = (r, w1)"
      and "\<not> os_IsNotExist (Stat env w1 (tarDistDir env script w @ ''/main''))"
      and "CombinedOutput env (cmdChmod env (tarDistDir env script w @ ''/main'')) w1
             = ((outChmod, None), w2)"
      and "c = cmd env (ns_script env ctx pid @ '' -- /bin/sh -c'')
                 (record_args (GOOS env) uid (tarDistDir env script w @ ''/main'') args)"
      and "CombinedOutput env c w2 = ((outMsg, err), w3)"
  shows "snd (RunScript env ctx script args uid w) =
           (w3, [Extract script (tarDistDir env script w),
                 Exec (cmdChmod env (tarDistDir env script w @ ''/main'')) outChmod None,
                 Exec c outMsg err])
         \<and> prefix (Sprintf_s pid) (drop 3 (ns_script env ctx pid))
         \<and> Args c = bin env # ''-t''
                       # Split (drop 3 (ns_script env ctx pid) @ '' -- /bin/sh -c'') CHR '' ''
                       @ [record_args (GOOS env) uid (tarDistDir env script w @ ''/main'') args]"
proof -
  have "RunScript env ctx script args uid w =
          (let (resp, w', effects) =
                 run_staged env (ns_script env ctx pid) args uid
                   (tarDistDir env script w @ ''/main'') w1
           in (resp, w', Extract script (tarDistDir env script w) # effects))"
    using assms(1-4) by (rule RunScript_staged)
  then have "snd (RunScript env ctx script args uid w) =
           (w3, [Extract script (tarDistDir env script w),
                 Exec (cmdChmod env (tarDistDir env script w @ ''/main'')) outChmod None,
                 Exec c outMsg err])"
    using assms(5,6,7) by (simp add: run_staged_def Let_def)
  moreover have "prefix (Sprintf_s pid) (drop 3 (ns_script env ctx pid))"
    by (simp add: ns_script_closed)
  ultimately show ?thesis
    using assms(6) by (simp add: cmd_def CommandContext_def ns_script_closed)
qed

theorem pid_checked_for_presence_only_witness:
  "snd (RunScript (example_env ('''', None) ('''', None)) (example_ctx ''not-a-pid'')
          ''/tmp/pkg.tar'' '''' ''id1'' example_files) =
     (''/tmp/1700000000000000000/main'' # example_files,
      [Extract ''/tmp/pkg.tar'' ''/tmp/1700000000000000000'', Exec example_chmod '''' None,
       Exec (example_cmd ''not-a-pid'') '''' None])"
proof -
  let ?E = "example_env ('''', None) ('''', None)"
  let ?w1 = "''/tmp/1700000000000000000/main'' # example_files"
  have dir: "tarDistDir ?E ''/tmp/pkg.tar'' example_files = ''/tmp/1700000000000000000''"
    by (simp add: example_defs)
  have 1: "example_ctx ''not-a-pid'' NSTargetFlagName = Some (AString ''not-a-pid'')"
    by (simp add: example_ctx_def)
  have 2: "\<not> (isBladeCommand ?E ''/tmp/pkg.tar'' \<and> \<not> IsExist ?E example_files ''/tmp/pkg.tar'')"
    by (simp add: example_defs)
  have 3: "UnTar ?E ''/tmp/pkg.tar'' (tarDistDir ?E ''/tmp/pkg.tar'' example_files) example_files
             = (None, ?w1)"
    by (simp add: example_defs)
  have 4: "\<not> os_IsNotExist (Stat ?E ?w1 (tarDistDir ?E ''/tmp/pkg.tar'' example_files @ ''/main''))"
    by (simp add: example_defs)
  have 5: "CombinedOutput ?E (cmdChmod ?E (tarDistDir ?E ''/tmp/pkg.tar'' example_files @ ''/main'')) ?w1
             = (('''', None), ?w1)"
    by (simp add: example_defs)
  have 6: "example_cmd ''not-a-pid'' =
             cmd ?E (ns_script ?E (example_ctx ''not-a-pid'') (AString ''not-a-pid'') @ '' -- /bin/sh -c'')
               (record_args (GOOS ?E) ''id1''
                  (tarDistDir ?E ''/tmp/pkg.tar'' example_files @ ''/main'') '''')"
    by (simp add: example_defs Let_def)
  have 7: "CombinedOutput ?E (example_cmd ''not-a-pid'') ?w1 = (('''', None), ?w1)"
    by (simp add: example_defs)
  show ?thesis
    using pid_checked_for_presence_only
      [where env = "?E" and ctx = "example_ctx ''not-a-pid''" and script = "''/tmp/pkg.tar''"
        and w = example_files and args = "''''" and uid = "''id1''", OF 1 2 3 4 5 6 7]
    by (simp add: dir example_defs)
qed

section \<open>The package stager\<close>



text \<open>
  C6. When the archive has been extracted without error and \<open>os.Stat\<close> of \<open>main\<close>,
  directly under the staging directory, gives an error for which \<open>os.IsNotExist\<close>
  holds, the result of \<open>RunScript\<close> is the failure Response of code \<open>FileNotExist\<close>,
  whose only flag ends with the text of that error; where the rendering of the message of
  this code embeds its flag, the message contains the text of the error.
\<close>

theorem RunScript_no_main:
  assumes "ctx NSTargetFlagName = Some pid"
      and "\<not> (isBladeCommand env script \<and> \<not> IsExist env w script)"
      and "UnTar env script (tarDistDir env script w) w = (None, w1)"
      and "Stat env w1 (tarDistDir env script w @ ''/main'') = Some e"
      and "IsNotExist e"
  shows "RunScript env ctx script args uid w =
           (ResponseFailWithFlags env (FileNotExist env)
              [FString ('' script files must contain main file '' @ Error e)],
            w1, [Extract script (tarDistDir env script w)])
         \<and> Code (fst (RunScript env ctx script args uid w)) = TypeCode (FileNotExist env)
         \<and> \<not> Success (fst (RunScript env ctx script args uid w))
         \<and> ((\<forall>m. sublist m (ErrMessage env (FileNotExist env) [FString m]))
              \<longrightarrow> (\<exists>msg. Err (fst (RunScript env ctx script args uid w)) = Some msg
                         \<and> sublist (Error e) msg))"
proof -
  let ?m = "'' script files must contain main file '' @ Error e"
  have run: "RunScript env ctx script args uid w =
           (ResponseFailWithFlags env (FileNotExist env) [FString ?m],
            w1, [Extract script (tarDistDir env script w)])"
    using assms by (rule RunScript_main_missing)
  have "sublist (Error e) msg" if "sublist ?m msg" for msg
    using that sublist_append_leftI sublist_order.order_trans by blast
  then show ?thesis
    unfolding run by (simp add: ResponseFailWithFlags_def)
qed

theorem RunScript_no_main_witness:
  "RunScript (example_env ('''', None) ('''', None)) (example_ctx ''1234'')
     ''/tmp/nomain.tar'' '''' ''id1'' example_files =
   (ResponseFailWithFlags (example_env ('''', None) ('''', None)) \<lparr>TypeCode = 44002\<rparr>
      [FString ('' script files must contain main file ''
                @ ''stat /tmp/1700000000000000000/main: no such file or directory'')],
    ''/tmp/1700000000000000000/run.sh'' # example_files,
    [Extract ''/tmp/nomain.tar'' ''/tmp/1700000000000000000''])
   \<and> (\<exists>msg. Err (fst (RunScript (example_env ('''', None) ('''', None)) (example_ctx ''1234'')
                         ''/tmp/nomain.tar'' '''' ''id1'' example_files)) = Some msg
            \<and> sublist ''stat /tmp/1700000000000000000/main: no such file or directory'' msg)"
proof -
  let ?E = "example_env ('''', None) ('''', None)"
  let ?w1 = "''/tmp/1700000000000000000/run.sh'' # example_files"
  let ?e = "Errno True ''stat /tmp/1700000000000000000/main: no such file or directory''"
  have dir: "tarDistDir ?E ''/tmp/nomain.tar'' example_files = ''/tmp/1700000000000000000''"
    by (simp add: example_defs)
  have 1: "example_ctx ''1234'' NSTargetFlagName = Some (AString ''1234'')"
    by (simp add: example_ctx_def)
  have 2: "\<not> (isBladeCommand ?E ''/tmp/nomain.tar''
              \<and> \<not> IsExist ?E example_files ''/tmp/nomain.tar'')"
    by (simp add: example_defs)
  have 3: "UnTar ?E ''/tmp/nomain.tar'' (tarDistDir ?E ''/tmp/nomain.tar'' example_files)
             example_files = (None, ?w1)"
    by (simp add: example_defs)
  have 4: "Stat ?E ?w1 (tarDistDir ?E ''/tmp/nomain.tar'' example_files @ ''/main'') = Some ?e"
    by (simp add: example_defs)
  have 5: "IsNotExist ?e" by simp
  have embeds: "\<forall>m. sublist m (ErrMessage ?E (FileNotExist ?E) [FString m])"
    by (simp add: example_env_def example_ErrMessage_embeds)
  have fne: "FileNotExist ?E = \<lparr>TypeCode = 44002\<rparr>"
    by (simp add: example_env_def)
  note no_main = RunScript_no_main
      [where env = "?E" and ctx = "example_ctx ''1234''" and script = "''/tmp/nomain.tar''"
        and w = example_files and args = "''''" and uid = "''id1''", OF 1 2 3 4 5]
  have response: "RunScript ?E (example_ctx ''1234'') ''/tmp/nomain.tar'' '''' ''id1'' example_files =
     (ResponseFailWithFlags ?E \<lparr>TypeCode = 44002\<rparr>
        [FString ('' script files must contain main file ''
                  @ ''stat /tmp/1700000000000000000/main: no such file or directory'')],
      ?w1, [Extract ''/tmp/nomain.tar'' ''/tmp/1700000000000000000''])"
    using no_main by (simp add: dir fne)
  have "\<exists>msg. Err (fst (RunScript ?E (example_ctx ''1234'') ''/tmp/nomain.tar'' '''' ''id1''
                          example_files)) = Some msg
              \<and> sublist (Error ?e) msg"
    using no_main embeds by blast
  then have message:
    "\<exists>msg. Err (fst (RunScript ?E (example_ctx ''1234'') ''/tmp/nomain.tar'' '''' ''id1''
                      example_files)) = Some msg
          \<and> sublist ''stat /tmp/1700000000000000000/main: no such file or directory'' msg"
    by simp
  show ?thesis using response message by (rule conjI)
qed



section \<open>The privilege normalizer\<close>

text \<open>
  C7. The privilege normalizer is to run \<open>chmod\<close> through the namespace-entry helper
  with the namespace flags of the target pid. The side effects of the run on the concrete
  host, for target pid \<open>1234\<close> and the mount and network namespaces: the helper is run
  for \<open>chmod\<close> with the single argument \<open>chmod 777 /tmp/1700000000000000000/main\<close>
  (line 164), without the flags \<open>-t 1234 -m -n -- /bin/sh -c\<close> that the main subprocess
  gets (line 195).
\<close>

theorem chmod_runs_without_namespace_flags:
  "snd (snd (RunScript (example_env ('''', None) ('''', None)) (example_ctx ''1234'')
               ''/tmp/pkg.tar'' '''' ''id1'' example_files)) =
     [Extract ''/tmp/pkg.tar'' ''/tmp/1700000000000000000'',
      Exec \<lparr>Path = ''/opt/chaosblade/bin/nsexec'',
            Args = [''/opt/chaosblade/bin/nsexec'',
                    ''chmod 777 /tmp/1700000000000000000/main'']\<rparr> '''' None,
      Exec \<lparr>Path = ''/opt/chaosblade/bin/nsexec'',
            Args = [''/opt/chaosblade/bin/nsexec'', ''-t'', ''1234'', ''-m'', ''-n'', ''--'',
                    ''/bin/sh'', ''-c'',
                    ''script  -t 2>/tmp/id1.time -a /tmp/id1.out  -c  '' @ [CHR 0x22]
                      @ ''/tmp/1700000000000000000/main'' @ [CHR 0x22]]\<rparr> '''' None]"
  by (simp add: example_run example_chmod_def example_cmd_def)

section \<open>The recording wrapper\<close>

text \<open>
  C8. The last argument of the main subprocess is the entry point wrapped in the terminal
  recorder \<open>script\<close>, a string made of the invocation id, the entry point and the
  arguments only: timing goes to \<open>/tmp/<uid>.time\<close>, the transcript to
  \<open>/tmp/<uid>.out\<close>; on the Darwin family the entry point and its arguments follow
  directly, on any other family they are the string in double quotes after \<open>-c\<close>.
\<close>

theorem recording_wrapper_form:
  assumes "RunScript env ctx script args uid w =
             (resp, w', [Extract s dir, ch, Exec c outMsg err])"
  shows "last (Args c) =
           (if GOOS env = ''darwin''
            then ''script  -t 2>/tmp/'' @ uid @ ''.time -a /tmp/'' @ uid @ ''.out ''
                   @ dir @ ''/main'' @ (if args = '''' then '''' else '' '' @ args)
            else ''script  -t 2>/tmp/'' @ uid @ ''.time -a /tmp/'' @ uid @ ''.out  -c  ''
                   @ [CHR 0x22] @ dir @ ''/main'' @ (if args = '''' then '''' else '' '' @ args)
                   @ [CHR 0x22])"
  using RunScript_main_trace [OF assms(1)]
  by (auto simp: cmd_def CommandContext_def record_args_def Let_def)

theorem recording_wrapper_form_witness:
  "last (Args (example_cmd ''1234'')) =
     ''script  -t 2>/tmp/id1.time -a /tmp/id1.out  -c  '' @ [CHR 0x22]
       @ ''/tmp/1700000000000000000/main'' @ [CHR 0x22]
   \<and> (\<exists>resp w' ch c.
         RunScript ((example_env ('''', None) ('''', None))\<lparr>GOOS := ''darwin''\<rparr>)
           (example_ctx ''1234'') ''/tmp/pkg.tar'' ''--level 3'' ''id1'' example_files
           = (resp, w', [Extract ''/tmp/pkg.tar'' ''/tmp/1700000000000000000'', ch,
                         Exec c '''' None])
         \<and> last (Args c) =
             ''script  -t 2>/tmp/id1.time -a /tmp/id1.out /tmp/1700000000000000000/main --level 3'')"
proof -
  let ?E = "example_env ('''', None) ('''', None)"
  have "last (Args (example_cmd ''1234'')) =
     ''script  -t 2>/tmp/id1.time -a /tmp/id1.out  -c  '' @ [CHR 0x22]
       @ ''/tmp/1700000000000000000/main'' @ [CHR 0x22]"
    using recording_wrapper_form [OF example_run [of "''''" None]]
    by (simp add: example_env_def)
  moreover have "\<exists>resp w' ch c.
         RunScript (?E\<lparr>GOOS := ''darwin''\<rparr>)
           (example_ctx ''1234'') ''/tmp/pkg.tar'' ''--level 3'' ''id1'' example_files
           = (resp, w', [Extract ''/tmp/pkg.tar'' ''/tmp/1700000000000000000'', ch,
                         Exec c '''' None])
         \<and> last (Args c) =
             ''script  -t 2>/tmp/id1.time -a /tmp/id1.out /tmp/1700000000000000000/main --level 3''"
    using recording_wrapper_form [OF example_run_darwin [of "''''" None]]
      example_run_darwin [of "''''" None]
    by (simp add: example_env_def)
  ultimately show ?thesis by blast
qed

end
